theory Spec2Isabelle
  imports Complex_Main "HOL-Library.AList"
begin

section \<open>Values, dictionaries and exceptions\<close>

text \<open>
  The claims of a token are a Python dictionary of JSON values, as \<open>json.loads\<close>
  gives them: \<open>JNum\<close> is a JSON number that Python reads as an \<open>int\<close>, \<open>JFloat\<close>
  one that it reads as a (finite) \<open>float\<close>, given by its exact value. A dictionary
  is an association list read with \<open>map_of\<close>; \<open>dict.get\<close> answers Python's \<open>None\<close>
  (here \<open>JNull\<close>, which is also what a JSON \<open>null\<close> decodes to) for a key that is not
  there, and \<open>dict.update\<close> with one pair overwrites the key in place or appends it.
\<close>

datatype jval =
    JNull
  | JBool bool
  | JNum int
  | JFloat rat
  | JStr string
  | JArr "jval list"
  | JObj "(string \<times> jval) list"

type_synonym dict = "(string \<times> jval) list"

definition dict_get :: "dict \<Rightarrow> string \<Rightarrow> jval" where
  "dict_get d k = (case map_of d k of None \<Rightarrow> JNull | Some v \<Rightarrow> v)"

definition dict_update :: "dict \<Rightarrow> string \<Rightarrow> jval \<Rightarrow> dict" where
  "dict_update d k v = AList.update k v d"

text \<open>
  The exceptions that reach this program: \<open>HTTPException(status_code, detail)\<close>,
  which the program raises itself; the subclasses of \<open>jwt.PyJWTError\<close> that decoding
  raises; and Python's \<open>TypeError\<close>, which is not a \<open>PyJWTError\<close>.
\<close>

datatype jwt_error =
    DecodeError
  | InvalidAlgorithmError
  | InvalidSignatureError
  | InvalidIssuedAtError
  | ImmatureSignatureError
  | ExpiredSignatureError
  | InvalidAudienceError

datatype py_exception =
    HTTPException int string
  | PyJWTError jwt_error
  | TypeError

text \<open>
  Times are whole seconds since the epoch, the resolution in which the \<open>exp\<close> claim
  of a token is written. Every function that reads the clock takes the reading as
  its argument \<open>now\<close>.
\<close>

type_synonym datetime = int

definition minutes :: "int \<Rightarrow> int" where
  "minutes m = m * 60"

section \<open>Configuration\<close>

definition ALGORITHM :: string where
  "ALGORITHM = ''HS256''"

definition ACCESS_TOKEN_EXPIRE_MINUTES :: int where
  "ACCESS_TOKEN_EXPIRE_MINUTES = 30"

text \<open>
  \<open>SECRET_KEY\<close> is read from the environment once, when the module is loaded; the
  functions below take it as the argument \<open>secret_key\<close>. This is the value it has
  when the environment does not set it.
\<close>

definition DEFAULT_SECRET_KEY :: string where
  "DEFAULT_SECRET_KEY = ''your-secret-key-change-in-production''"

section \<open>Python's reading of values\<close>

text \<open>
  The library reads a time claim with Python's \<open>int(v)\<close>: an integer is itself, a
  float is truncated towards zero, a boolean is 0 or 1, a string is parsed or
  raises \<open>ValueError\<close>, and \<open>None\<close>, a list and a dictionary raise \<open>TypeError\<close>. The
  parsing of a string is the parameter \<open>int_str\<close> (\<open>None\<close> where Python raises
  \<open>ValueError\<close>), about which nothing is assumed. \<open>py_falsy v\<close> is Python's \<open>not v\<close>.
\<close>

type_synonym str_to_int = "string \<Rightarrow> int option"

datatype int_reading = IntValue int | IntValueError | IntTypeError

fun py_int :: "str_to_int \<Rightarrow> jval \<Rightarrow> int_reading" where
  "py_int int_str (JNum n) = IntValue n"
| "py_int int_str (JFloat q) = IntValue (if q < 0 then \<lceil>q\<rceil> else \<lfloor>q\<rfloor>)"
| "py_int int_str (JBool b) = IntValue (if b then 1 else 0)"
| "py_int int_str (JStr s) = (case int_str s of None \<Rightarrow> IntValueError | Some n \<Rightarrow> IntValue n)"
| "py_int int_str JNull = IntTypeError"
| "py_int int_str (JArr xs) = IntTypeError"
| "py_int int_str (JObj kvs) = IntTypeError"

fun py_falsy :: "jval \<Rightarrow> bool" where
  "py_falsy JNull = True"
| "py_falsy (JBool b) = (\<not> b)"
| "py_falsy (JNum n) = (n = 0)"
| "py_falsy (JFloat q) = (q = 0)"
| "py_falsy (JStr s) = (s = [])"
| "py_falsy (JArr xs) = (xs = [])"
| "py_falsy (JObj kvs) = (kvs = [])"

section \<open>The JWT library\<close>

text \<open>
  \<open>jwt.encode\<close> and \<open>jwt.decode\<close> belong to the PyJWT package, not to this program.
  They are modelled by what the package does in its releases 2.6 to 2.9 (the later
  type checks of \<open>sub\<close> and \<open>jti\<close> are not part of them). A token string is seen
  through its parse: either it is not a compact JWS with a JSON object as payload
  (\<open>Garbage\<close>), or it is one, with the algorithm named in its header, its claims and
  its signature. The keyed hash is the parameter \<open>mac\<close> (key, algorithm, claims),
  about which nothing is assumed.

  \<open>jwt_decode\<close> is \<open>jwt.decode(token, key, algorithms=[...])\<close> with no audience, no
  issuer and the default options. In the library's order: the token parses; its
  algorithm is among the allowed ones; its signature is the keyed hash of its
  content; then the claims are validated, each only when the payload has it:
  \<open>iat\<close> must read as an integer that is not after the current time, \<open>nbf\<close> likewise,
  \<open>exp\<close> must read as an integer that is after the current time (the library
  refuses \<open>exp <= now\<close>), and \<open>aud\<close> must be empty (falsy), since the call names no
  audience. A \<open>ValueError\<close> of the reading is turned into a \<open>PyJWTError\<close> by the
  library; a \<open>TypeError\<close> is not caught by it.
\<close>

datatype token = Garbage string | Jws string dict string

type_synonym mac = "string \<Rightarrow> string \<Rightarrow> dict \<Rightarrow> string"

definition jwt_encode :: "mac \<Rightarrow> dict \<Rightarrow> string \<Rightarrow> string \<Rightarrow> token" where
  "jwt_encode mac payload key algorithm = Jws algorithm payload (mac key algorithm payload)"

definition validate_iat :: "str_to_int \<Rightarrow> datetime \<Rightarrow> dict \<Rightarrow> py_exception option" where
  "validate_iat int_str now payload =
     (case map_of payload ''iat'' of
        None \<Rightarrow> None
      | Some v \<Rightarrow>
          (case py_int int_str v of
             IntValueError \<Rightarrow> Some (PyJWTError InvalidIssuedAtError)
           | IntTypeError \<Rightarrow> Some TypeError
           | IntValue iat \<Rightarrow>
               if iat > now then Some (PyJWTError ImmatureSignatureError) else None))"

definition validate_nbf :: "str_to_int \<Rightarrow> datetime \<Rightarrow> dict \<Rightarrow> py_exception option" where
  "validate_nbf int_str now payload =
     (case map_of payload ''nbf'' of
        None \<Rightarrow> None
      | Some v \<Rightarrow>
          (case py_int int_str v of
             IntValueError \<Rightarrow> Some (PyJWTError DecodeError)
           | IntTypeError \<Rightarrow> Some TypeError
           | IntValue nbf \<Rightarrow>
               if nbf > now then Some (PyJWTError ImmatureSignatureError) else None))"

definition validate_exp :: "str_to_int \<Rightarrow> datetime \<Rightarrow> dict \<Rightarrow> py_exception option" where
  "validate_exp int_str now payload =
     (case map_of payload ''exp'' of
        None \<Rightarrow> None
      | Some v \<Rightarrow>
          (case py_int int_str v of
             IntValueError \<Rightarrow> Some (PyJWTError DecodeError)
           | IntTypeError \<Rightarrow> Some TypeError
           | IntValue expiry \<Rightarrow>
               if expiry \<le> now then Some (PyJWTError ExpiredSignatureError) else None))"

definition validate_aud :: "dict \<Rightarrow> py_exception option" where
  "validate_aud payload =
     (case map_of payload ''aud'' of
        None \<Rightarrow> None
      | Some v \<Rightarrow> if py_falsy v then None else Some (PyJWTError InvalidAudienceError))"

definition validate_claims :: "str_to_int \<Rightarrow> datetime \<Rightarrow> dict \<Rightarrow> py_exception + dict" where
  "validate_claims int_str now payload =
     (case validate_iat int_str now payload of
        Some e \<Rightarrow> Inl e
      | None \<Rightarrow>
          (case validate_nbf int_str now payload of
             Some e \<Rightarrow> Inl e
           | None \<Rightarrow>
               (case validate_exp int_str now payload of
                  Some e \<Rightarrow> Inl e
                | None \<Rightarrow>
                    (case validate_aud payload of
                       Some e \<Rightarrow> Inl e
                     | None \<Rightarrow> Inr payload))))"

definition jwt_decode ::
  "mac \<Rightarrow> str_to_int \<Rightarrow> datetime \<Rightarrow> token \<Rightarrow> string \<Rightarrow> string list \<Rightarrow> py_exception + dict" where
  "jwt_decode mac int_str now tok key algorithms =
     (case tok of
        Garbage s \<Rightarrow> Inl (PyJWTError DecodeError)
      | Jws alg payload sg \<Rightarrow>
          if alg \<notin> set algorithms then Inl (PyJWTError InvalidAlgorithmError)
          else if sg \<noteq> mac key alg payload then Inl (PyJWTError InvalidSignatureError)
          else validate_claims int_str now payload)"

text \<open>
  A concrete keyed function and a concrete reading of strings (unsigned decimal
  numerals), used only to run the model on concrete tokens; the theorems below hold
  for every \<open>mac\<close> and every \<open>int_str\<close>.
\<close>

definition sample_mac :: mac where
  "sample_mac key alg payload = key @ ''/'' @ alg @ ''/'' @ concat (map fst payload)"

definition sample_digit :: "char \<Rightarrow> int option" where
  "sample_digit =
     map_of [(CHR ''0'', 0), (CHR ''1'', 1), (CHR ''2'', 2), (CHR ''3'', 3), (CHR ''4'', 4),
             (CHR ''5'', 5), (CHR ''6'', 6), (CHR ''7'', 7), (CHR ''8'', 8), (CHR ''9'', 9)]"

fun sample_digits :: "int \<Rightarrow> string \<Rightarrow> int option" where
  "sample_digits n [] = Some n"
| "sample_digits n (c # cs) =
     (case sample_digit c of None \<Rightarrow> None | Some d \<Rightarrow> sample_digits (10 * n + d) cs)"

definition sample_int_str :: str_to_int where
  "sample_int_str s = (if s = [] then None else sample_digits 0 s)"

section \<open>Token helpers of the program\<close>

text \<open>
  \<open>create_access_token\<close> copies \<open>data\<close>, sets \<open>exp\<close> to the current time plus
  \<open>ACCESS_TOKEN_EXPIRE_MINUTES\<close> and encodes the result under \<open>SECRET_KEY\<close>.
\<close>

definition create_access_token :: "mac \<Rightarrow> string \<Rightarrow> datetime \<Rightarrow> dict \<Rightarrow> token" where
  "create_access_token mac secret_key now data =
     (let to_encode = data;
          expire = now + minutes ACCESS_TOKEN_EXPIRE_MINUTES;
          to_encode = dict_update to_encode ''exp'' (JNum expire);
          encoded_jwt = jwt_encode mac to_encode secret_key ALGORITHM
      in encoded_jwt)"

text \<open>
  \<open>verify_token\<close> decodes the credentials. Its \<open>except jwt.PyJWTError\<close> turns every
  \<open>PyJWTError\<close> into \<open>HTTPException(401, "Invalid token")\<close>, which is also what a
  missing (\<open>None\<close>) subject raises; any other exception passes through it.
\<close>

definition verify_token ::
  "mac \<Rightarrow> str_to_int \<Rightarrow> string \<Rightarrow> datetime \<Rightarrow> token \<Rightarrow> py_exception + jval" where
  "verify_token mac int_str secret_key now credentials =
     (case jwt_decode mac int_str now credentials secret_key [ALGORITHM] of
        Inl (PyJWTError e) \<Rightarrow> Inl (HTTPException 401 ''Invalid token'')
      | Inl other \<Rightarrow> Inl other
      | Inr payload \<Rightarrow>
          (let username = dict_get payload ''sub''
           in if username = JNull then Inl (HTTPException 401 ''Invalid token'')
              else Inr username))"

section \<open>What a token is said to satisfy\<close>

text \<open>
  The conditions under which a token is called valid, each stated on the token
  itself. Its signature verifies: it parses, its header names \<open>HS256\<close> and its
  signature is the keyed hash of its content under the key. It has not expired:
  it has no \<open>exp\<close> claim, or one that reads as a time after the current one. Its
  \<open>iat\<close> and \<open>nbf\<close> claims are accepted: each is absent or reads as a time not after
  the current one. Its audience is empty: it has no \<open>aud\<close> claim, or a falsy one.
  Its subject is present: the \<open>sub\<close> claim is not \<open>None\<close>; \<open>subject_nonempty\<close> is the
  narrower reading that also excludes the empty string. A claim is unreadable when
  reading it as an integer raises \<open>TypeError\<close>, and \<open>type_error_escapes\<close> says that
  the first time claim the library does not accept is an unreadable one.
\<close>

definition claims :: "token \<Rightarrow> dict" where
  "claims tok = (case tok of Garbage s \<Rightarrow> [] | Jws alg payload sg \<Rightarrow> payload)"










section \<open>Models and the in-memory store\<close>

text \<open>
  The Pydantic models. \<open>Optional[str]\<close> is \<open>string option\<close>; Python integers are
  unbounded, so ids and counters are \<open>int\<close>. The fields of \<open>Task\<close> carry the prefix
  \<open>t_\<close>, those of \<open>User\<close> the prefix \<open>u_\<close>, and those of the two creation models
  \<open>tc_\<close> and \<open>uc_\<close>.
\<close>

record TaskCreate =
  tc_title :: string
  tc_description :: "string option"
  tc_priority :: string

record Task =
  t_id :: int
  t_title :: string
  t_description :: "string option"
  t_priority :: string
  t_completed :: bool
  t_created_at :: datetime

record UserCreate =
  uc_username :: string
  uc_email :: string
  uc_password :: string

record User =
  u_id :: int
  u_username :: string
  u_email :: string
  u_created_at :: datetime

record Token =
  access_token :: token
  token_type :: string

text \<open>
  The four module-level variables \<open>tasks_db\<close>, \<open>users_db\<close>, \<open>task_id_counter\<close> and
  \<open>user_id_counter\<close> are the state; every handler takes the state and returns its
  result together with the state it leaves. A handler that raises leaves the state
  as it was when the exception was raised.
\<close>

record store =
  tasks_db :: "Task list"
  users_db :: "User list"
  task_id_counter :: int
  user_id_counter :: int

definition initial_store :: store where
  "initial_store = \<lparr>tasks_db = [], users_db = [], task_id_counter = 1, user_id_counter = 1\<rparr>"

text \<open>
  \<open>next((t for t in xs if p(t)), None)\<close> is \<open>find\<close>. The object it returns is the one
  held by the list, so assigning to its fields changes the first element of the list
  that satisfies the test: \<open>mutate_first\<close>.
\<close>

fun mutate_first :: "('a \<Rightarrow> bool) \<Rightarrow> ('a \<Rightarrow> 'a) \<Rightarrow> 'a list \<Rightarrow> 'a list" where
  "mutate_first p f [] = []"
| "mutate_first p f (x # xs) = (if p x then f x # xs else x # mutate_first p f xs)"

section \<open>Task handlers\<close>

text \<open>
  Each handler has the arguments of the Python function; \<open>username\<close> is the value
  that the \<open>verify_token\<close> dependency hands over, which no handler body of the task
  API reads.
\<close>

definition create_task ::
  "datetime \<Rightarrow> TaskCreate \<Rightarrow> jval \<Rightarrow> store \<Rightarrow> (py_exception + Task) \<times> store" where
  "create_task now task username s =
     (let new_task = \<lparr>t_id = task_id_counter s,
                       t_title = tc_title task,
                       t_description = tc_description task,
                       t_priority = tc_priority task,
                       t_completed = False,
                       t_created_at = now\<rparr>;
          s = s\<lparr>tasks_db := tasks_db s @ [new_task]\<rparr>;
          s = s\<lparr>task_id_counter := task_id_counter s + 1\<rparr>
      in (Inr new_task, s))"

definition get_tasks :: "jval \<Rightarrow> store \<Rightarrow> (py_exception + Task list) \<times> store" where
  "get_tasks username s = (Inr (tasks_db s), s)"

definition get_task :: "int \<Rightarrow> jval \<Rightarrow> store \<Rightarrow> (py_exception + Task) \<times> store" where
  "get_task task_id username s =
     (case find (\<lambda>t. t_id t = task_id) (tasks_db s) of
        None \<Rightarrow> (Inl (HTTPException 404 ''Task not found''), s)
      | Some task \<Rightarrow> (Inr task, s))"

definition update_task ::
  "int \<Rightarrow> TaskCreate \<Rightarrow> jval \<Rightarrow> store \<Rightarrow> (py_exception + Task) \<times> store" where
  "update_task task_id task_update username s =
     (case find (\<lambda>t. t_id t = task_id) (tasks_db s) of
        None \<Rightarrow> (Inl (HTTPException 404 ''Task not found''), s)
      | Some task \<Rightarrow>
          (let assign = (\<lambda>t. t\<lparr>t_title := tc_title task_update,
                               t_description := tc_description task_update,
                               t_priority := tc_priority task_update\<rparr>)
           in (Inr (assign task),
               s\<lparr>tasks_db := mutate_first (\<lambda>t. t_id t = task_id) assign (tasks_db s)\<rparr>)))"

definition delete_task :: "int \<Rightarrow> jval \<Rightarrow> store \<Rightarrow> (py_exception + string) \<times> store" where
  "delete_task task_id username s =
     (Inr ''Task deleted successfully'',
      s\<lparr>tasks_db := filter (\<lambda>t. t_id t \<noteq> task_id) (tasks_db s)\<rparr>)"

definition complete_task :: "int \<Rightarrow> jval \<Rightarrow> store \<Rightarrow> (py_exception + Task) \<times> store" where
  "complete_task task_id username s =
     (case find (\<lambda>t. t_id t = task_id) (tasks_db s) of
        None \<Rightarrow> (Inl (HTTPException 404 ''Task not found''), s)
      | Some task \<Rightarrow>
          (let assign = (\<lambda>t. t\<lparr>t_completed := True\<rparr>)
           in (Inr (assign task),
               s\<lparr>tasks_db := mutate_first (\<lambda>t. t_id t = task_id) assign (tasks_db s)\<rparr>)))"

section \<open>User and authentication handlers\<close>

definition create_user ::
  "datetime \<Rightarrow> UserCreate \<Rightarrow> store \<Rightarrow> (py_exception + User) \<times> store" where
  "create_user now user s =
     (if list_ex (\<lambda>u. u_username u = uc_username user) (users_db s)
      then (Inl (HTTPException 400 ''Username already exists''), s)
      else
        (let new_user = \<lparr>u_id = user_id_counter s,
                          u_username = uc_username user,
                          u_email = uc_email user,
                          u_created_at = now\<rparr>;
             s = s\<lparr>users_db := users_db s @ [new_user]\<rparr>;
             s = s\<lparr>user_id_counter := user_id_counter s + 1\<rparr>
         in (Inr new_user, s)))"

definition get_users :: "store \<Rightarrow> (py_exception + User list) \<times> store" where
  "get_users s = (Inr (users_db s), s)"

definition login ::
  "mac \<Rightarrow> string \<Rightarrow> datetime \<Rightarrow> string \<Rightarrow> string \<Rightarrow> store \<Rightarrow> (py_exception + Token) \<times> store" where
  "login mac secret_key now username password s =
     (case find (\<lambda>u. u_username u = username) (users_db s) of
        None \<Rightarrow> (Inl (HTTPException 401 ''Invalid credentials''), s)
      | Some user \<Rightarrow>
          (let access_token = create_access_token mac secret_key now [(''sub'', JStr username)]
           in (Inr \<lparr>access_token = access_token, token_type = ''bearer''\<rparr>, s)))"

definition get_current_user :: "jval \<Rightarrow> store \<Rightarrow> (py_exception + User) \<times> store" where
  "get_current_user username s =
     (case find (\<lambda>u. JStr (u_username u) = username) (users_db s) of
        None \<Rightarrow> (Inl (HTTPException 404 ''User not found''), s)
      | Some user \<Rightarrow> (Inr user, s))"


section \<open>Sequences of requests\<close>

text \<open>
  Handlers are coroutines without an \<open>await\<close>, so each runs to its end before the
  next starts: the life of the process is a sequence of requests, each with the
  clock reading and the principal it runs with. \<open>run\<close> executes such a sequence and
  logs each request with its outcome.
\<close>

datatype request =
    CreateTask TaskCreate
  | GetTasks
  | GetTask int
  | UpdateTask int TaskCreate
  | DeleteTask int
  | CompleteTask int
  | CreateUser UserCreate
  | GetUsers
  | Login string string
  | GetCurrentUser

datatype response =
    RTask Task
  | RTasks "Task list"
  | RMessage string
  | RUser User
  | RUsers "User list"
  | RToken Token

definition respond ::
  "('a \<Rightarrow> response) \<Rightarrow> (py_exception + 'a) \<times> store \<Rightarrow> (py_exception + response) \<times> store" where
  "respond wrap out = (case out of (Inl e, s) \<Rightarrow> (Inl e, s) | (Inr v, s) \<Rightarrow> (Inr (wrap v), s))"

fun exec ::
  "mac \<Rightarrow> string \<Rightarrow> datetime \<Rightarrow> jval \<Rightarrow> request \<Rightarrow> store \<Rightarrow> (py_exception + response) \<times> store" where
  "exec mac key now username (CreateTask task) s = respond RTask (create_task now task username s)"
| "exec mac key now username GetTasks s = respond RTasks (get_tasks username s)"
| "exec mac key now username (GetTask task_id) s = respond RTask (get_task task_id username s)"
| "exec mac key now username (UpdateTask task_id task_update) s =
     respond RTask (update_task task_id task_update username s)"
| "exec mac key now username (DeleteTask task_id) s =
     respond RMessage (delete_task task_id username s)"
| "exec mac key now username (CompleteTask task_id) s =
     respond RTask (complete_task task_id username s)"
| "exec mac key now username (CreateUser user) s = respond RUser (create_user now user s)"
| "exec mac key now username GetUsers s = respond RUsers (get_users s)"
| "exec mac key now username (Login name password) s =
     respond RToken (login mac key now name password s)"
| "exec mac key now username GetCurrentUser s = respond RUser (get_current_user username s)"

fun run ::
  "mac \<Rightarrow> string \<Rightarrow> (datetime \<times> jval \<times> request) list \<Rightarrow> store \<Rightarrow>
   (request \<times> (py_exception + response)) list \<times> store" where
  "run mac key [] s = ([], s)"
| "run mac key ((now, username, req) # evs) s =
     (case exec mac key now username req s of
        (r, s') \<Rightarrow> (case run mac key evs s' of (trace, s'') \<Rightarrow> ((req, r) # trace, s'')))"

text \<open>The ids handed out by the successful creations of a trace, in order.\<close>

fun task_ids_assigned :: "(request \<times> (py_exception + response)) list \<Rightarrow> int list" where
  "task_ids_assigned [] = []"
| "task_ids_assigned ((CreateTask task, Inr (RTask t)) # trace) = t_id t # task_ids_assigned trace"
| "task_ids_assigned (entry # trace) = task_ids_assigned trace"

fun user_ids_assigned :: "(request \<times> (py_exception + response)) list \<Rightarrow> int list" where
  "user_ids_assigned [] = []"
| "user_ids_assigned ((CreateUser user, Inr (RUser u)) # trace) = u_id u # user_ids_assigned trace"
| "user_ids_assigned (entry # trace) = user_ids_assigned trace"

fun is_create_task :: "datetime \<times> jval \<times> request \<Rightarrow> bool" where
  "is_create_task (now, username, CreateTask task) = True"
| "is_create_task (now, username, req) = False"

fun is_created_user :: "request \<times> (py_exception + response) \<Rightarrow> bool" where
  "is_created_user (CreateUser user, Inr r) = True"
| "is_created_user (req, r) = False"

section \<open>Sample data\<close>


definition sample_store :: store where
  "sample_store =
     \<lparr>tasks_db =
        [\<lparr>t_id = 1, t_title = ''A'', t_description = None, t_priority = ''medium'',
          t_completed = False, t_created_at = 1700000000\<rparr>,
         \<lparr>t_id = 2, t_title = ''B'', t_description = Some ''second'', t_priority = ''high'',
          t_completed = True, t_created_at = 1700000060\<rparr>],
      users_db =
        [\<lparr>u_id = 1, u_username = ''alice'', u_email = ''alice@example.com'',
          u_created_at = 1699999000\<rparr>],
      task_id_counter = 3,
      user_id_counter = 2\<rparr>"

definition sample_update :: TaskCreate where
  "sample_update = \<lparr>tc_title = ''B2'', tc_description = None, tc_priority = ''low''\<rparr>"

definition sample_task :: "string \<Rightarrow> TaskCreate" where
  "sample_task title = \<lparr>tc_title = title, tc_description = None, tc_priority = ''medium''\<rparr>"

definition sample_signup :: "string \<Rightarrow> UserCreate" where
  "sample_signup name =
     \<lparr>uc_username = name, uc_email = name @ ''@example.com'', uc_password = ''secret''\<rparr>"

definition sample_requests :: "(datetime \<times> jval \<times> request) list" where
  "sample_requests =
     [(1700000000, JStr ''alice'', CreateTask (sample_task ''A'')),
      (1700000001, JStr ''alice'', DeleteTask 1),
      (1700000002, JStr ''alice'', CreateTask (sample_task ''B'')),
      (1700000003, JNull, CreateUser (sample_signup ''alice'')),
      (1700000004, JNull, CreateUser (sample_signup ''alice'')),
      (1700000005, JStr ''alice'', UpdateTask 2 sample_update),
      (1700000006, JNull, CreateUser (sample_signup ''bob'')),
      (1700000007, JStr ''bob'', CreateTask (sample_task ''C''))]"

section \<open>Facts about dictionaries and the codec\<close>

lemma dict_get_update:
  "dict_get (dict_update d k v) k' = (if k' = k then v else dict_get d k')"
  by (simp add: dict_get_def dict_update_def update_conv')

lemma map_of_dict_update:
  "map_of (dict_update d k v) = (map_of d)(k \<mapsto> v)"
  by (simp add: dict_update_def update_conv')

lemma jwt_decode_encode:
  "jwt_decode mac int_str now (jwt_encode mac payload key alg) key [alg]
     = validate_claims int_str now payload"
  by (simp add: jwt_decode_def jwt_encode_def)

lemma validate_claims_issued:
  assumes "map_of data ''iat'' = None" and "map_of data ''nbf'' = None"
    and "map_of data ''aud'' = None"
  shows "validate_claims int_str now (dict_update data ''exp'' (JNum e)) =
     (if e \<le> now then Inl (PyJWTError ExpiredSignatureError)
      else Inr (dict_update data ''exp'' (JNum e)))"
  using assms
  by (simp add: validate_claims_def validate_iat_def validate_nbf_def validate_exp_def
      validate_aud_def map_of_dict_update)

lemma verify_created:
  assumes "map_of data ''iat'' = None" and "map_of data ''nbf'' = None"
    and "map_of data ''aud'' = None"
  shows "verify_token mac int_str key now' (create_access_token mac key now data) =
     (if now' < now + minutes ACCESS_TOKEN_EXPIRE_MINUTES \<and> dict_get data ''sub'' \<noteq> JNull
      then Inr (dict_get data ''sub'')
      else Inl (HTTPException 401 ''Invalid token''))"
proof (cases "now' < now + minutes ACCESS_TOKEN_EXPIRE_MINUTES")
  case True
  then show ?thesis
    by (simp add: verify_token_def create_access_token_def jwt_decode_encode
        validate_claims_issued [OF assms] dict_get_update)
next
  case False
  then have "now + minutes ACCESS_TOKEN_EXPIRE_MINUTES \<le> now'" by simp
  then show ?thesis
    by (simp add: verify_token_def create_access_token_def jwt_decode_encode
        validate_claims_issued [OF assms])
qed

lemma verify_issued:
  "verify_token mac int_str key now' (create_access_token mac key now [(''sub'', JStr u)]) =
     (if now' < now + minutes ACCESS_TOKEN_EXPIRE_MINUTES then Inr (JStr u)
      else Inl (HTTPException 401 ''Invalid token''))"
  by (simp add: verify_created dict_get_def)





section \<open>Facts about the store\<close>

lemma find_id_None: "(find (\<lambda>t. f t = k) xs = None) = (k \<notin> f ` set xs)"
  by (induction xs) auto

lemma find_mutate_first:
  "find p xs = Some x \<Longrightarrow>
   \<exists>i<length xs. xs ! i = x \<and> p x \<and> (\<forall>j<i. \<not> p (xs ! j)) \<and> mutate_first p f xs = xs[i := f x]"
proof (induction xs)
  case Nil
  then show ?case by simp
next
  case (Cons a xs)
  show ?case
  proof (cases "p a")
    case True
    with Cons.prems have "a = x" by simp
    with True have "0 < length (a # xs) \<and> (a # xs) ! 0 = x \<and> p x \<and> (\<forall>j<0. \<not> p ((a # xs) ! j)) \<and>
        mutate_first p f (a # xs) = (a # xs)[0 := f x]"
      by simp
    then show ?thesis by blast
  next
    case False
    with Cons.prems have "find p xs = Some x" by simp
    from Cons.IH [OF this] obtain i where i: "i < length xs" "xs ! i = x" "p x"
      "\<forall>j<i. \<not> p (xs ! j)" "mutate_first p f xs = xs[i := f x]"
      by blast
    have "\<forall>j<Suc i. \<not> p ((a # xs) ! j)"
    proof (intro allI impI)
      fix j assume "j < Suc i"
      then show "\<not> p ((a # xs) ! j)"
        using False i(4) by (cases j) auto
    qed
    with i False have "Suc i < length (a # xs) \<and> (a # xs) ! Suc i = x \<and> p x \<and>
        (\<forall>j<Suc i. \<not> p ((a # xs) ! j)) \<and> mutate_first p f (a # xs) = (a # xs)[Suc i := f x]"
      by simp
    then show ?thesis by blast
  qed
qed

lemma get_task_absent:
  "task_id \<notin> t_id ` set (tasks_db s) \<Longrightarrow>
   get_task task_id username s = (Inl (HTTPException 404 ''Task not found''), s)"
  by (simp add: get_task_def find_id_None [symmetric])

lemma update_task_absent:
  "task_id \<notin> t_id ` set (tasks_db s) \<Longrightarrow>
   update_task task_id task_update username s = (Inl (HTTPException 404 ''Task not found''), s)"
  by (simp add: update_task_def find_id_None [symmetric])

lemma complete_task_absent:
  "task_id \<notin> t_id ` set (tasks_db s) \<Longrightarrow>
   complete_task task_id username s = (Inl (HTTPException 404 ''Task not found''), s)"
  by (simp add: complete_task_def find_id_None [symmetric])

lemma respond_eq:
  "respond wrap (r, s) = (map_sum id wrap r, s)"
  by (cases r) (simp_all add: respond_def)

lemma exec_create_task:
  "exec mac key now username (CreateTask task) s =
     (Inr (RTask \<lparr>t_id = task_id_counter s, t_title = tc_title task,
                  t_description = tc_description task, t_priority = tc_priority task,
                  t_completed = False, t_created_at = now\<rparr>),
      snd (exec mac key now username (CreateTask task) s))"
  by (simp add: create_task_def respond_def Let_def)

lemma exec_task_counter:
  "task_id_counter (snd (exec mac key now username req s)) =
     (if is_create_task (now, username, req) then task_id_counter s + 1 else task_id_counter s)"
  by (cases req)
    (simp_all add: respond_def create_task_def get_tasks_def get_task_def update_task_def
      delete_task_def complete_task_def create_user_def get_users_def login_def
      get_current_user_def Let_def split: option.splits)

lemma task_ids_assigned_other:
  "\<not> is_create_task (now, username, req) \<Longrightarrow>
   task_ids_assigned ((req, r) # trace) = task_ids_assigned trace"
  by (cases req) simp_all

lemma run_task_ids:
  "sorted_wrt (<) (task_ids_assigned (fst (run mac key evs s))) \<and>
   (\<forall>i \<in> set (task_ids_assigned (fst (run mac key evs s))).
      task_id_counter s \<le> i \<and> i < task_id_counter (snd (run mac key evs s))) \<and>
   task_id_counter s \<le> task_id_counter (snd (run mac key evs s)) \<and>
   length (task_ids_assigned (fst (run mac key evs s))) = length (filter is_create_task evs)"
proof (induction evs arbitrary: s)
  case Nil
  show ?case by simp
next
  case (Cons ev evs)
  obtain now username req where ev: "ev = (now, username, req)"
    by (cases ev) auto
  obtain r s1 where ex: "exec mac key now username req s = (r, s1)"
    by (cases "exec mac key now username req s") auto
  obtain trace s2 where rn: "run mac key evs s1 = (trace, s2)"
    by (cases "run mac key evs s1") auto
  have whole: "run mac key ((now, username, req) # evs) s = ((req, r) # trace, s2)"
    by (simp add: ex rn)
  have c1: "task_id_counter s1 =
      (if is_create_task (now, username, req) then task_id_counter s + 1 else task_id_counter s)"
    using exec_task_counter [of mac key now username req s] by (simp add: ex)
  from Cons.IH [of s1] have ih:
    "sorted_wrt (<) (task_ids_assigned trace)"
    "\<forall>i \<in> set (task_ids_assigned trace). task_id_counter s1 \<le> i \<and> i < task_id_counter s2"
    "task_id_counter s1 \<le> task_id_counter s2"
    "length (task_ids_assigned trace) = length (filter is_create_task evs)"
    by (simp_all add: rn)
  show ?case
  proof (cases "is_create_task (now, username, req)")
    case False
    then have "task_ids_assigned ((req, r) # trace) = task_ids_assigned trace"
      by (rule task_ids_assigned_other)
    with False ih c1 show ?thesis
      unfolding ev by (simp add: whole del: run.simps)
  next
    case True
    then obtain task where req: "req = CreateTask task"
      by (cases req) auto
    from exec_create_task [of mac key now username task s] ex req
    obtain t where r: "r = Inr (RTask t)" and t: "t_id t = task_id_counter s"
      by auto
    have ids: "task_ids_assigned ((req, r) # trace) = task_id_counter s # task_ids_assigned trace"
      by (simp add: req r t)
    from True c1 have c1': "task_id_counter s1 = task_id_counter s + 1"
      by simp
    have "\<forall>i \<in> set (task_ids_assigned trace). task_id_counter s < i"
      using ih(2) c1' by auto
    with True ih c1' show ?thesis
      unfolding ev by (auto simp: whole ids simp del: run.simps)
  qed
qed

lemma exec_create_user_ok:
  "exec mac key now username (CreateUser user) s = (Inr v, s1) \<Longrightarrow>
   (\<exists>u. v = RUser u \<and> u_id u = user_id_counter s) \<and> user_id_counter s1 = user_id_counter s + 1"
  by (auto simp: create_user_def respond_def Let_def split: if_splits)

lemma exec_user_counter_other:
  "\<not> is_created_user (req, r) \<Longrightarrow> exec mac key now username req s = (r, s1) \<Longrightarrow>
   user_id_counter s1 = user_id_counter s"
  by (cases req; cases r)
    (auto simp: respond_def create_task_def get_tasks_def get_task_def update_task_def
      delete_task_def complete_task_def create_user_def get_users_def login_def
      get_current_user_def Let_def split: option.splits if_splits)

lemma user_ids_assigned_other:
  "\<not> is_created_user (req, r) \<Longrightarrow>
   user_ids_assigned ((req, r) # trace) = user_ids_assigned trace"
  by (cases req; cases r) simp_all

lemma run_user_ids:
  "sorted_wrt (<) (user_ids_assigned (fst (run mac key evs s))) \<and>
   (\<forall>i \<in> set (user_ids_assigned (fst (run mac key evs s))).
      user_id_counter s \<le> i \<and> i < user_id_counter (snd (run mac key evs s))) \<and>
   user_id_counter s \<le> user_id_counter (snd (run mac key evs s)) \<and>
   length (user_ids_assigned (fst (run mac key evs s)))
     = length (filter is_created_user (fst (run mac key evs s)))"
proof (induction evs arbitrary: s)
  case Nil
  show ?case by simp
next
  case (Cons ev evs)
  obtain now username req where ev: "ev = (now, username, req)"
    by (cases ev) auto
  obtain r s1 where ex: "exec mac key now username req s = (r, s1)"
    by (cases "exec mac key now username req s") auto
  obtain trace s2 where rn: "run mac key evs s1 = (trace, s2)"
    by (cases "run mac key evs s1") auto
  have whole: "run mac key ((now, username, req) # evs) s = ((req, r) # trace, s2)"
    by (simp add: ex rn)
  from Cons.IH [of s1] have ih:
    "sorted_wrt (<) (user_ids_assigned trace)"
    "\<forall>i \<in> set (user_ids_assigned trace). user_id_counter s1 \<le> i \<and> i < user_id_counter s2"
    "user_id_counter s1 \<le> user_id_counter s2"
    "length (user_ids_assigned trace) = length (filter is_created_user trace)"
    by (simp_all add: rn)
  show ?case
  proof (cases "is_created_user (req, r)")
    case False
    then have "user_ids_assigned ((req, r) # trace) = user_ids_assigned trace"
      by (rule user_ids_assigned_other)
    moreover from False ex have "user_id_counter s1 = user_id_counter s"
      by (rule exec_user_counter_other)
    ultimately show ?thesis
      using False ih unfolding ev by (simp add: whole del: run.simps)
  next
    case True
    then obtain user v where req: "req = CreateUser user" and r: "r = Inr v"
      by (cases req; cases r) auto
    from exec_create_user_ok [of mac key now username user s v s1] ex req r
    obtain u where v: "v = RUser u" and u: "u_id u = user_id_counter s"
      and c1: "user_id_counter s1 = user_id_counter s + 1"
      by auto
    have ids: "user_ids_assigned ((req, r) # trace) = user_id_counter s # user_ids_assigned trace"
      by (simp add: req r v u)
    have "\<forall>i \<in> set (user_ids_assigned trace). user_id_counter s < i"
      using ih(2) c1 by auto
    with True ih c1 show ?thesis
      unfolding ev by (auto simp: whole ids simp del: run.simps)
  qed
qed

section \<open>Token round trip\<close>

text \<open>
  Claim C2. For every non-empty subject \<open>u\<close>, verifying the token issued for \<open>u\<close>
  (the call \<open>create_access_token(data={"sub": u})\<close> that login makes) under the
  same secret key and at the same clock reading yields \<open>u\<close>.
\<close>

theorem verify_issue_roundtrip:
  assumes "u \<noteq> []"
  shows "verify_token mac int_str secret_key now
           (create_access_token mac secret_key now [(''sub'', JStr u)]) = Inr (JStr u)"
  by (simp add: verify_issued minutes_def ACCESS_TOKEN_EXPIRE_MINUTES_def)

theorem verify_issue_roundtrip_witness:
  "''alice'' \<noteq> [] \<and>
   verify_token sample_mac sample_int_str DEFAULT_SECRET_KEY 1700000000
     (create_access_token sample_mac DEFAULT_SECRET_KEY 1700000000 [(''sub'', JStr ''alice'')])
     = Inr (JStr ''alice'')"
  using verify_issue_roundtrip [where u = "''alice''" and mac = sample_mac
      and int_str = sample_int_str and secret_key = DEFAULT_SECRET_KEY and now = 1700000000]
  by simp

section \<open>When a token verifies\<close>




section \<open>Expiry window\<close>

text \<open>
  Claim C3. A token created at clock reading \<open>t0\<close> carries the \<open>exp\<close> claim
  \<open>t0 + 30 minutes\<close>; when its data has a subject and none of the claims \<open>iat\<close>,
  \<open>nbf\<close> and \<open>aud\<close> (login passes the subject only), \<open>verify_token\<close> returns that
  subject at \<open>t0 + 29 minutes\<close> and raises at \<open>t0 + 31 minutes\<close>.
\<close>

theorem token_expiry_window:
  assumes "dict_get data ''sub'' \<noteq> JNull"
    and "map_of data ''iat'' = None"
    and "map_of data ''nbf'' = None"
    and "map_of data ''aud'' = None"
  shows "dict_get (claims (create_access_token mac secret_key t0 data)) ''exp''
           = JNum (t0 + minutes 30) \<and>
         verify_token mac int_str secret_key (t0 + minutes 29)
           (create_access_token mac secret_key t0 data) = Inr (dict_get data ''sub'') \<and>
         verify_token mac int_str secret_key (t0 + minutes 31)
           (create_access_token mac secret_key t0 data)
           = Inl (HTTPException 401 ''Invalid token'')"
proof -
  note created = verify_created [OF assms(2) assms(3) assms(4)]
  have "dict_get (claims (create_access_token mac secret_key t0 data)) ''exp''
          = JNum (t0 + minutes 30)"
    by (simp add: create_access_token_def jwt_encode_def claims_def dict_get_update
        ACCESS_TOKEN_EXPIRE_MINUTES_def Let_def)
  moreover have "verify_token mac int_str secret_key (t0 + minutes 29)
      (create_access_token mac secret_key t0 data) = Inr (dict_get data ''sub'')"
    using assms(1) by (simp add: created minutes_def ACCESS_TOKEN_EXPIRE_MINUTES_def)
  moreover have "verify_token mac int_str secret_key (t0 + minutes 31)
      (create_access_token mac secret_key t0 data) = Inl (HTTPException 401 ''Invalid token'')"
    by (simp add: created minutes_def ACCESS_TOKEN_EXPIRE_MINUTES_def)
  ultimately show ?thesis by simp
qed

theorem token_expiry_window_witness:
  "dict_get [(''sub'', JStr ''alice'')] ''sub'' \<noteq> JNull \<and>
   map_of [(''sub'', JStr ''alice'')] ''iat'' = None \<and>
   map_of [(''sub'', JStr ''alice'')] ''nbf'' = None \<and>
   map_of [(''sub'', JStr ''alice'')] ''aud'' = None \<and>
   dict_get (claims (create_access_token sample_mac DEFAULT_SECRET_KEY 1700000000
       [(''sub'', JStr ''alice'')])) ''exp'' = JNum 1700001800 \<and>
   verify_token sample_mac sample_int_str DEFAULT_SECRET_KEY 1700001740
     (create_access_token sample_mac DEFAULT_SECRET_KEY 1700000000 [(''sub'', JStr ''alice'')])
     = Inr (JStr ''alice'') \<and>
   verify_token sample_mac sample_int_str DEFAULT_SECRET_KEY 1700001860
     (create_access_token sample_mac DEFAULT_SECRET_KEY 1700000000 [(''sub'', JStr ''alice'')])
     = Inl (HTTPException 401 ''Invalid token'')"
proof -
  have h: "dict_get [(''sub'', JStr ''alice'')] ''sub'' \<noteq> JNull"
    by (simp add: dict_get_def)
  have i: "map_of [(''sub'', JStr ''alice'')] ''iat'' = None"
    and n: "map_of [(''sub'', JStr ''alice'')] ''nbf'' = None"
    and a: "map_of [(''sub'', JStr ''alice'')] ''aud'' = None"
    by simp_all
  show ?thesis
    using h token_expiry_window [OF h i n a, where mac = sample_mac
        and int_str = sample_int_str and secret_key = DEFAULT_SECRET_KEY and ?t0.0 = 1700000000]
    by (simp add: minutes_def dict_get_def)
qed

section \<open>Identifiers\<close>

text \<open>
  Claim C4. Whatever sequence of requests is run from whatever store, the ids
  handed out by its task creations are strictly increasing and pairwise distinct,
  there is one for each \<open>CreateTask\<close> request, and each is below the counter the run
  leaves, which is the next id to be handed out; the same holds for the ids handed
  out by the user creations that succeed.
\<close>

theorem ids_strictly_increasing:
  "sorted_wrt (<) (task_ids_assigned (fst (run mac key evs s))) \<and>
   distinct (task_ids_assigned (fst (run mac key evs s))) \<and>
   length (task_ids_assigned (fst (run mac key evs s))) = length (filter is_create_task evs) \<and>
   (\<forall>i \<in> set (task_ids_assigned (fst (run mac key evs s))).
      i < task_id_counter (snd (run mac key evs s))) \<and>
   sorted_wrt (<) (user_ids_assigned (fst (run mac key evs s))) \<and>
   distinct (user_ids_assigned (fst (run mac key evs s))) \<and>
   length (user_ids_assigned (fst (run mac key evs s)))
     = length (filter is_created_user (fst (run mac key evs s))) \<and>
   (\<forall>i \<in> set (user_ids_assigned (fst (run mac key evs s))).
      i < user_id_counter (snd (run mac key evs s)))"
proof -
  note t = run_task_ids [of mac key evs s]
  note u = run_user_ids [of mac key evs s]
  from t have "distinct (task_ids_assigned (fst (run mac key evs s)))"
    by (simp add: strict_sorted_iff)
  moreover from u have "distinct (user_ids_assigned (fst (run mac key evs s)))"
    by (simp add: strict_sorted_iff)
  ultimately show ?thesis
    using t u by simp
qed

theorem ids_strictly_increasing_witness:
  "task_ids_assigned (fst (run sample_mac DEFAULT_SECRET_KEY sample_requests initial_store))
     = [1, 2, 3] \<and>
   user_ids_assigned (fst (run sample_mac DEFAULT_SECRET_KEY sample_requests initial_store))
     = [1, 2] \<and>
   sorted_wrt (<)
     (task_ids_assigned (fst (run sample_mac DEFAULT_SECRET_KEY sample_requests initial_store))) \<and>
   distinct
     (task_ids_assigned (fst (run sample_mac DEFAULT_SECRET_KEY sample_requests initial_store))) \<and>
   length (filter is_create_task sample_requests) = 3 \<and>
   sorted_wrt (<)
     (user_ids_assigned (fst (run sample_mac DEFAULT_SECRET_KEY sample_requests initial_store))) \<and>
   distinct
     (user_ids_assigned (fst (run sample_mac DEFAULT_SECRET_KEY sample_requests initial_store))) \<and>
   task_id_counter (snd (run sample_mac DEFAULT_SECRET_KEY sample_requests initial_store)) = 4 \<and>
   user_id_counter (snd (run sample_mac DEFAULT_SECRET_KEY sample_requests initial_store)) = 3"
proof -
  have r: "run sample_mac DEFAULT_SECRET_KEY sample_requests initial_store =
    ([(CreateTask (sample_task ''A''),
        Inr (RTask \<lparr>t_id = 1, t_title = ''A'', t_description = None, t_priority = ''medium'',
                     t_completed = False, t_created_at = 1700000000\<rparr>)),
      (DeleteTask 1, Inr (RMessage ''Task deleted successfully'')),
      (CreateTask (sample_task ''B''),
        Inr (RTask \<lparr>t_id = 2, t_title = ''B'', t_description = None, t_priority = ''medium'',
                     t_completed = False, t_created_at = 1700000002\<rparr>)),
      (CreateUser (sample_signup ''alice''),
        Inr (RUser \<lparr>u_id = 1, u_username = ''alice'', u_email = ''alice@example.com'',
                     u_created_at = 1700000003\<rparr>)),
      (CreateUser (sample_signup ''alice''),
        Inl (HTTPException 400 ''Username already exists'')),
      (UpdateTask 2 sample_update,
        Inr (RTask \<lparr>t_id = 2, t_title = ''B2'', t_description = None, t_priority = ''low'',
                     t_completed = False, t_created_at = 1700000002\<rparr>)),
      (CreateUser (sample_signup ''bob''),
        Inr (RUser \<lparr>u_id = 2, u_username = ''bob'', u_email = ''bob@example.com'',
                     u_created_at = 1700000006\<rparr>)),
      (CreateTask (sample_task ''C''),
        Inr (RTask \<lparr>t_id = 3, t_title = ''C'', t_description = None, t_priority = ''medium'',
                     t_completed = False, t_created_at = 1700000007\<rparr>))],
     \<lparr>tasks_db =
        [\<lparr>t_id = 2, t_title = ''B2'', t_description = None, t_priority = ''low'',
          t_completed = False, t_created_at = 1700000002\<rparr>,
         \<lparr>t_id = 3, t_title = ''C'', t_description = None, t_priority = ''medium'',
          t_completed = False, t_created_at = 1700000007\<rparr>],
      users_db =
        [\<lparr>u_id = 1, u_username = ''alice'', u_email = ''alice@example.com'',
          u_created_at = 1700000003\<rparr>,
         \<lparr>u_id = 2, u_username = ''bob'', u_email = ''bob@example.com'',
          u_created_at = 1700000006\<rparr>],
      task_id_counter = 4,
      user_id_counter = 3\<rparr>)"
    by (simp add: sample_requests_def initial_store_def sample_task_def sample_signup_def
        sample_update_def respond_def create_task_def delete_task_def update_task_def
        create_user_def Let_def)
  have n: "length (filter is_create_task sample_requests) = 3"
    by (simp add: sample_requests_def)
  show ?thesis
    using ids_strictly_increasing
      [of sample_mac DEFAULT_SECRET_KEY sample_requests initial_store] n
    by (simp add: r)
qed

section \<open>Creating users\<close>

text \<open>
  Claim C5. \<open>create_user\<close> raises the 400 "Username already exists" exactly when
  the username is that of a user in the store, and then leaves the whole store
  unchanged; otherwise it returns a new user with the id of the counter and the
  current time, appends it to the users and advances the counter by one.
\<close>

theorem create_user_conflict:
  "(fst (create_user now user s) = Inl (HTTPException 400 ''Username already exists''))
     = (uc_username user \<in> u_username ` set (users_db s)) \<and>
   (uc_username user \<in> u_username ` set (users_db s) \<longrightarrow>
      create_user now user s = (Inl (HTTPException 400 ''Username already exists''), s)) \<and>
   (uc_username user \<notin> u_username ` set (users_db s) \<longrightarrow>
      create_user now user s =
        (Inr \<lparr>u_id = user_id_counter s, u_username = uc_username user,
              u_email = uc_email user, u_created_at = now\<rparr>,
         s\<lparr>users_db := users_db s @
               [\<lparr>u_id = user_id_counter s, u_username = uc_username user,
                 u_email = uc_email user, u_created_at = now\<rparr>],
           user_id_counter := user_id_counter s + 1\<rparr>))"
proof -
  have ex: "list_ex (\<lambda>u. u_username u = uc_username user) (users_db s)
      = (uc_username user \<in> u_username ` set (users_db s))"
    by (force simp: list_ex_iff)
  show ?thesis
    by (simp add: create_user_def ex Let_def)
qed

theorem create_user_conflict_witness:
  "''alice'' \<in> u_username ` set (users_db sample_store) \<and>
   create_user 1700000500 (sample_signup ''alice'') sample_store
     = (Inl (HTTPException 400 ''Username already exists''), sample_store) \<and>
   ''bob'' \<notin> u_username ` set (users_db sample_store) \<and>
   create_user 1700000500 (sample_signup ''bob'') sample_store
     = (Inr \<lparr>u_id = 2, u_username = ''bob'', u_email = ''bob@example.com'',
             u_created_at = 1700000500\<rparr>,
        sample_store\<lparr>users_db := users_db sample_store @
            [\<lparr>u_id = 2, u_username = ''bob'', u_email = ''bob@example.com'',
              u_created_at = 1700000500\<rparr>],
          user_id_counter := 3\<rparr>)"
proof -
  have a: "''alice'' \<in> u_username ` set (users_db sample_store)"
    by (simp add: sample_store_def)
  have b: "''bob'' \<notin> u_username ` set (users_db sample_store)"
    by (simp add: sample_store_def)
  have c: "user_id_counter sample_store = 2"
    by (simp add: sample_store_def)
  show ?thesis
    using a b
      create_user_conflict [of 1700000500 "sample_signup ''alice''" sample_store]
      create_user_conflict [of 1700000500 "sample_signup ''bob''" sample_store]
    by (simp add: sample_signup_def c)
qed

section \<open>Updating a task\<close>

text \<open>
  Claim C6. When a task with the id is in the store, \<open>update_task\<close> returns that
  task (the first with the id) with its title, description and priority replaced
  by the supplied ones and with its id, completed flag and creation time as they
  were, and the store it leaves differs from the old one in that one position of
  the task list only. When no task has the id, it raises the 404 "Task not found".
\<close>

theorem update_task_frame:
  "(task_id \<notin> t_id ` set (tasks_db s) \<longrightarrow>
      update_task task_id task_update username s
        = (Inl (HTTPException 404 ''Task not found''), s)) \<and>
   (task_id \<in> t_id ` set (tasks_db s) \<longrightarrow>
      (\<exists>i task'. i < length (tasks_db s) \<and> t_id (tasks_db s ! i) = task_id \<and>
         (\<forall>j<i. t_id (tasks_db s ! j) \<noteq> task_id) \<and>
         update_task task_id task_update username s
           = (Inr task', s\<lparr>tasks_db := (tasks_db s)[i := task']\<rparr>) \<and>
         t_title task' = tc_title task_update \<and>
         t_description task' = tc_description task_update \<and>
         t_priority task' = tc_priority task_update \<and>
         t_id task' = t_id (tasks_db s ! i) \<and>
         t_completed task' = t_completed (tasks_db s ! i) \<and>
         t_created_at task' = t_created_at (tasks_db s ! i)))"
proof (intro conjI impI)
  assume "task_id \<notin> t_id ` set (tasks_db s)"
  then show "update_task task_id task_update username s
      = (Inl (HTTPException 404 ''Task not found''), s)"
    by (rule update_task_absent)
next
  let ?p = "\<lambda>t. t_id t = task_id"
  let ?f = "\<lambda>t. t\<lparr>t_title := tc_title task_update,
                    t_description := tc_description task_update,
                    t_priority := tc_priority task_update\<rparr>"
  assume "task_id \<in> t_id ` set (tasks_db s)"
  then have "find ?p (tasks_db s) \<noteq> None"
    by (simp add: find_id_None)
  then obtain task where found: "find ?p (tasks_db s) = Some task"
    by blast
  from find_mutate_first [OF found, of ?f] obtain i where
    i: "i < length (tasks_db s)" "tasks_db s ! i = task" "t_id task = task_id"
       "\<forall>j<i. t_id (tasks_db s ! j) \<noteq> task_id"
       "mutate_first ?p ?f (tasks_db s) = (tasks_db s)[i := ?f task]"
    by blast
  have "update_task task_id task_update username s
      = (Inr (?f task), s\<lparr>tasks_db := (tasks_db s)[i := ?f task]\<rparr>)"
    using found i(5) by (simp add: update_task_def)
  with i show "\<exists>i task'. i < length (tasks_db s) \<and> t_id (tasks_db s ! i) = task_id \<and>
         (\<forall>j<i. t_id (tasks_db s ! j) \<noteq> task_id) \<and>
         update_task task_id task_update username s
           = (Inr task', s\<lparr>tasks_db := (tasks_db s)[i := task']\<rparr>) \<and>
         t_title task' = tc_title task_update \<and>
         t_description task' = tc_description task_update \<and>
         t_priority task' = tc_priority task_update \<and>
         t_id task' = t_id (tasks_db s ! i) \<and>
         t_completed task' = t_completed (tasks_db s ! i) \<and>
         t_created_at task' = t_created_at (tasks_db s ! i)"
    by (intro exI [of _ i] exI [of _ "?f task"]) simp
qed

theorem update_task_frame_witness:
  "2 \<in> t_id ` set (tasks_db sample_store) \<and>
   update_task 2 sample_update (JStr ''alice'') sample_store
     = (Inr \<lparr>t_id = 2, t_title = ''B2'', t_description = None, t_priority = ''low'',
             t_completed = True, t_created_at = 1700000060\<rparr>,
        sample_store\<lparr>tasks_db := (tasks_db sample_store)
           [1 := \<lparr>t_id = 2, t_title = ''B2'', t_description = None, t_priority = ''low'',
                   t_completed = True, t_created_at = 1700000060\<rparr>]\<rparr>) \<and>
   7 \<notin> t_id ` set (tasks_db sample_store) \<and>
   update_task 7 sample_update (JStr ''alice'') sample_store
     = (Inl (HTTPException 404 ''Task not found''), sample_store)"
proof -
  have present: "2 \<in> t_id ` set (tasks_db sample_store)"
    by (simp add: sample_store_def)
  have absent: "7 \<notin> t_id ` set (tasks_db sample_store)"
    by (simp add: sample_store_def)
  from present update_task_frame [of 2 sample_store sample_update "JStr ''alice''"]
  obtain i task' where i: "i < length (tasks_db sample_store)"
    "t_id (tasks_db sample_store ! i) = 2"
    and upd: "update_task 2 sample_update (JStr ''alice'') sample_store
      = (Inr task', sample_store\<lparr>tasks_db := (tasks_db sample_store)[i := task']\<rparr>)"
    and fields: "t_title task' = tc_title sample_update"
      "t_description task' = tc_description sample_update"
      "t_priority task' = tc_priority sample_update"
      "t_id task' = t_id (tasks_db sample_store ! i)"
      "t_completed task' = t_completed (tasks_db sample_store ! i)"
      "t_created_at task' = t_created_at (tasks_db sample_store ! i)"
    by blast
  from i have "i = 1"
    by (cases i) (simp_all add: sample_store_def)
  with fields have "task' = \<lparr>t_id = 2, t_title = ''B2'', t_description = None,
      t_priority = ''low'', t_completed = True, t_created_at = 1700000060\<rparr>"
    by (cases task') (simp add: sample_store_def sample_update_def)
  with upd \<open>i = 1\<close> present absent
    update_task_frame [of 7 sample_store sample_update "JStr ''alice''"]
  show ?thesis
    by simp
qed

section \<open>Deleting a task\<close>

text \<open>
  Claim C7. \<open>delete_task\<close> always returns its message; the task list it leaves is
  the old one without the tasks that have the id, the others kept as they were and
  in their order, and nothing else of the store changes (nothing at all when no
  task had the id). After it, \<open>get_task\<close> for the id raises the 404, and a second
  \<open>delete_task\<close> for the id succeeds again and changes nothing.
\<close>

theorem delete_task_effect:
  assumes "delete_task task_id username s = (r, s')"
  shows "r = Inr ''Task deleted successfully'' \<and>
         tasks_db s' = filter (\<lambda>t. t_id t \<noteq> task_id) (tasks_db s) \<and>
         (\<forall>t \<in> set (tasks_db s'). t_id t \<noteq> task_id) \<and>
         (task_id \<notin> t_id ` set (tasks_db s) \<longrightarrow> s' = s) \<and>
         users_db s' = users_db s \<and>
         task_id_counter s' = task_id_counter s \<and>
         user_id_counter s' = user_id_counter s \<and>
         get_task task_id username s' = (Inl (HTTPException 404 ''Task not found''), s') \<and>
         delete_task task_id username s' = (Inr ''Task deleted successfully'', s')"
proof -
  from assms have r: "r = Inr ''Task deleted successfully''"
    and s': "s' = s\<lparr>tasks_db := filter (\<lambda>t. t_id t \<noteq> task_id) (tasks_db s)\<rparr>"
    by (auto simp: delete_task_def)
  have gone: "task_id \<notin> t_id ` set (tasks_db s')"
    using s' by auto
  have same: "task_id \<notin> t_id ` set (tasks_db s) \<Longrightarrow> s' = s"
  proof -
    assume "task_id \<notin> t_id ` set (tasks_db s)"
    then have "filter (\<lambda>t. t_id t \<noteq> task_id) (tasks_db s) = tasks_db s"
      by (auto intro: filter_True)
    with s' show "s' = s" by simp
  qed
  have again: "delete_task task_id username s' = (Inr ''Task deleted successfully'', s')"
    using s' by (simp add: delete_task_def)
  show ?thesis
    using r s' gone same again get_task_absent [OF gone] by auto
qed

theorem delete_task_effect_witness:
  "delete_task 1 (JStr ''alice'') sample_store
     = (Inr ''Task deleted successfully'',
        sample_store\<lparr>tasks_db := [tasks_db sample_store ! 1]\<rparr>) \<and>
   get_task 1 (JStr ''alice'') (sample_store\<lparr>tasks_db := [tasks_db sample_store ! 1]\<rparr>)
     = (Inl (HTTPException 404 ''Task not found''),
        sample_store\<lparr>tasks_db := [tasks_db sample_store ! 1]\<rparr>) \<and>
   delete_task 1 (JStr ''alice'') (sample_store\<lparr>tasks_db := [tasks_db sample_store ! 1]\<rparr>)
     = (Inr ''Task deleted successfully'',
        sample_store\<lparr>tasks_db := [tasks_db sample_store ! 1]\<rparr>) \<and>
   delete_task 7 (JStr ''alice'') sample_store
     = (Inr ''Task deleted successfully'', sample_store)"
proof -
  have d1: "delete_task 1 (JStr ''alice'') sample_store
     = (Inr ''Task deleted successfully'',
        sample_store\<lparr>tasks_db := [tasks_db sample_store ! 1]\<rparr>)"
    by (simp add: delete_task_def sample_store_def)
  have d7: "delete_task 7 (JStr ''alice'') sample_store
     = (Inr ''Task deleted successfully'', sample_store)"
    by (simp add: delete_task_def sample_store_def)
  note after = delete_task_effect [OF d1]
  from after have g: "get_task 1 (JStr ''alice'')
      (sample_store\<lparr>tasks_db := [tasks_db sample_store ! 1]\<rparr>)
     = (Inl (HTTPException 404 ''Task not found''),
        sample_store\<lparr>tasks_db := [tasks_db sample_store ! 1]\<rparr>)"
    by blast
  from after have a: "delete_task 1 (JStr ''alice'')
      (sample_store\<lparr>tasks_db := [tasks_db sample_store ! 1]\<rparr>)
     = (Inr ''Task deleted successfully'',
        sample_store\<lparr>tasks_db := [tasks_db sample_store ! 1]\<rparr>)"
    by blast
  from d1 d7 g a show ?thesis
    by blast
qed

section \<open>Login\<close>

text \<open>
  Claim C8. When a user with the username is in the store, \<open>login\<close> returns, for
  every password, a bearer token whose \<open>sub\<close> claim is the username and which
  \<open>verify_token\<close> resolves to the username; when no user has the username it raises
  the 401 "Invalid credentials". The store is left as it was.
\<close>

theorem login_any_password:
  "(username \<in> u_username ` set (users_db s) \<longrightarrow>
      (\<exists>tok. login mac secret_key now username password s
                = (Inr \<lparr>access_token = tok, token_type = ''bearer''\<rparr>, s) \<and>
             dict_get (claims tok) ''sub'' = JStr username \<and>
             verify_token mac int_str secret_key now tok = Inr (JStr username))) \<and>
   (username \<notin> u_username ` set (users_db s) \<longrightarrow>
      login mac secret_key now username password s
        = (Inl (HTTPException 401 ''Invalid credentials''), s))"
proof (intro conjI impI)
  assume "username \<notin> u_username ` set (users_db s)"
  then have "find (\<lambda>u. u_username u = username) (users_db s) = None"
    by (simp add: find_id_None)
  then show "login mac secret_key now username password s
      = (Inl (HTTPException 401 ''Invalid credentials''), s)"
    by (simp add: login_def)
next
  let ?tok = "create_access_token mac secret_key now [(''sub'', JStr username)]"
  assume "username \<in> u_username ` set (users_db s)"
  then have "find (\<lambda>u. u_username u = username) (users_db s) \<noteq> None"
    by (simp add: find_id_None)
  then obtain user where "find (\<lambda>u. u_username u = username) (users_db s) = Some user"
    by blast
  then have "login mac secret_key now username password s
      = (Inr \<lparr>access_token = ?tok, token_type = ''bearer''\<rparr>, s)"
    by (simp add: login_def)
  moreover have "dict_get (claims ?tok) ''sub'' = JStr username"
    by (simp add: create_access_token_def jwt_encode_def claims_def dict_get_update Let_def)
      (simp add: dict_get_def)
  moreover have "verify_token mac int_str secret_key now ?tok = Inr (JStr username)"
    by (simp add: verify_issued minutes_def ACCESS_TOKEN_EXPIRE_MINUTES_def)
  ultimately show "\<exists>tok. login mac secret_key now username password s
                = (Inr \<lparr>access_token = tok, token_type = ''bearer''\<rparr>, s) \<and>
             dict_get (claims tok) ''sub'' = JStr username \<and>
             verify_token mac int_str secret_key now tok = Inr (JStr username)"
    by blast
qed

theorem login_any_password_witness:
  "''alice'' \<in> u_username ` set (users_db sample_store) \<and>
   login sample_mac DEFAULT_SECRET_KEY 1700000000 ''alice'' ''anything'' sample_store
     = (Inr \<lparr>access_token =
               create_access_token sample_mac DEFAULT_SECRET_KEY 1700000000
                 [(''sub'', JStr ''alice'')],
             token_type = ''bearer''\<rparr>, sample_store) \<and>
   verify_token sample_mac sample_int_str DEFAULT_SECRET_KEY 1700000000
     (create_access_token sample_mac DEFAULT_SECRET_KEY 1700000000 [(''sub'', JStr ''alice'')])
     = Inr (JStr ''alice'') \<and>
   ''mallory'' \<notin> u_username ` set (users_db sample_store) \<and>
   login sample_mac DEFAULT_SECRET_KEY 1700000000 ''mallory'' ''anything'' sample_store
     = (Inl (HTTPException 401 ''Invalid credentials''), sample_store)"
proof -
  have a: "''alice'' \<in> u_username ` set (users_db sample_store)"
    by (simp add: sample_store_def)
  have m: "''mallory'' \<notin> u_username ` set (users_db sample_store)"
    by (simp add: sample_store_def)
  have l: "login sample_mac DEFAULT_SECRET_KEY 1700000000 ''alice'' ''anything'' sample_store
     = (Inr \<lparr>access_token =
               create_access_token sample_mac DEFAULT_SECRET_KEY 1700000000
                 [(''sub'', JStr ''alice'')],
             token_type = ''bearer''\<rparr>, sample_store)"
    by (simp add: login_def sample_store_def)
  from a login_any_password [where username = "''alice''" and s = sample_store
      and mac = sample_mac and int_str = sample_int_str and secret_key = DEFAULT_SECRET_KEY
      and now = 1700000000 and password = "''anything''"]
  obtain tok where
    tok: "login sample_mac DEFAULT_SECRET_KEY 1700000000 ''alice'' ''anything'' sample_store
       = (Inr \<lparr>access_token = tok, token_type = ''bearer''\<rparr>, sample_store)"
    and v: "verify_token sample_mac sample_int_str DEFAULT_SECRET_KEY 1700000000 tok = Inr (JStr ''alice'')"
    by blast
  from tok l have "tok = create_access_token sample_mac DEFAULT_SECRET_KEY 1700000000
      [(''sub'', JStr ''alice'')]"
    by simp
  with v have v': "verify_token sample_mac sample_int_str DEFAULT_SECRET_KEY 1700000000
     (create_access_token sample_mac DEFAULT_SECRET_KEY 1700000000 [(''sub'', JStr ''alice'')])
     = Inr (JStr ''alice'')"
    by simp
  from m login_any_password [where username = "''mallory''" and s = sample_store
      and mac = sample_mac and int_str = sample_int_str and secret_key = DEFAULT_SECRET_KEY
      and now = 1700000000 and password = "''anything''"]
  have f: "login sample_mac DEFAULT_SECRET_KEY 1700000000 ''mallory'' ''anything'' sample_store
     = (Inl (HTTPException 401 ''Invalid credentials''), sample_store)"
    by blast
  from a l v' m f show ?thesis
    by blast
qed

section \<open>Authentication and the user store\<close>




section \<open>Lookups that fail\<close>

text \<open>
  Claim C10. For an id that no task in the store has, \<open>get_task\<close>, \<open>update_task\<close>
  and \<open>complete_task\<close> raise the 404 "Task not found" and leave the whole store,
  both lists and both counters, as it was.
\<close>

theorem lookup_absent_atomic:
  assumes "task_id \<notin> t_id ` set (tasks_db s)"
  shows "get_task task_id username s = (Inl (HTTPException 404 ''Task not found''), s) \<and>
         update_task task_id task_update username s
           = (Inl (HTTPException 404 ''Task not found''), s) \<and>
         complete_task task_id username s = (Inl (HTTPException 404 ''Task not found''), s)"
  using assms by (simp add: get_task_absent update_task_absent complete_task_absent)

theorem lookup_absent_atomic_witness:
  "7 \<notin> t_id ` set (tasks_db sample_store) \<and>
   get_task 7 (JStr ''alice'') sample_store
     = (Inl (HTTPException 404 ''Task not found''), sample_store) \<and>
   update_task 7 sample_update (JStr ''alice'') sample_store
     = (Inl (HTTPException 404 ''Task not found''), sample_store) \<and>
   complete_task 7 (JStr ''alice'') sample_store
     = (Inl (HTTPException 404 ''Task not found''), sample_store)"
proof -
  have h: "7 \<notin> t_id ` set (tasks_db sample_store)"
    by (simp add: sample_store_def)
  show ?thesis
    using h lookup_absent_atomic [OF h, of "JStr ''alice''" sample_update]
    by simp
qed

end
